theory Spec2Isabelle
  imports Complex_Main "HOL-Library.Word"
begin

section \<open>Bytes, labels and errors\<close>

text \<open>
  A Go \<^verbatim>\<open>[]byte\<close> is a list of 8-bit words. Encoding labels, operation names and
  paths are Go strings, modelled as \<^typ>\<open>string\<close>.
\<close>

type_synonym byte = "8 word"
type_synonym bytes = "byte list"

text \<open>The label constants of the package (the \<^verbatim>\<open>const\<close> block of supported encodings).\<close>

definition EncodingUTF8 :: string where "EncodingUTF8 = ''UTF-8''"
definition EncodingUTF16 :: string where "EncodingUTF16 = ''UTF-16''"
definition EncodingUTF16LE :: string where "EncodingUTF16LE = ''UTF-16LE''"
definition EncodingUTF16BE :: string where "EncodingUTF16BE = ''UTF-16BE''"
definition EncodingUTF32 :: string where "EncodingUTF32 = ''UTF-32''"
definition EncodingUTF32LE :: string where "EncodingUTF32LE = ''UTF-32LE''"
definition EncodingUTF32BE :: string where "EncodingUTF32BE = ''UTF-32BE''"
definition EncodingGBK :: string where "EncodingGBK = ''GBK''"
definition EncodingGB2312 :: string where "EncodingGB2312 = ''GB2312''"
definition EncodingGB18030 :: string where "EncodingGB18030 = ''GB18030''"
definition EncodingBIG5 :: string where "EncodingBIG5 = ''BIG5''"
definition EncodingShiftJIS :: string where "EncodingShiftJIS = ''SHIFT_JIS''"
definition EncodingEUCJP :: string where "EncodingEUCJP = ''EUC-JP''"
definition EncodingEUCKR :: string where "EncodingEUCKR = ''EUC-KR''"
definition EncodingISO88591 :: string where "EncodingISO88591 = ''ISO-8859-1''"
definition EncodingISO88592 :: string where "EncodingISO88592 = ''ISO-8859-2''"
definition EncodingISO88595 :: string where "EncodingISO88595 = ''ISO-8859-5''"
definition EncodingISO885915 :: string where "EncodingISO885915 = ''ISO-8859-15''"
definition EncodingWindows1250 :: string where "EncodingWindows1250 = ''WINDOWS-1250''"
definition EncodingWindows1251 :: string where "EncodingWindows1251 = ''WINDOWS-1251''"
definition EncodingWindows1252 :: string where "EncodingWindows1252 = ''WINDOWS-1252''"
definition EncodingWindows1254 :: string where "EncodingWindows1254 = ''WINDOWS-1254''"
definition EncodingKOI8R :: string where "EncodingKOI8R = ''KOI8-R''"
definition EncodingCP866 :: string where "EncodingCP866 = ''CP866''"
definition EncodingMacintosh :: string where "EncodingMacintosh = ''MACINTOSH''"

definition OperationDetect :: string where "OperationDetect = ''detect''"
definition OperationConvert :: string where "OperationConvert = ''convert''"

text \<open>
  Go \<^verbatim>\<open>error\<close> values. The sentinel errors of \<^verbatim>\<open>errors.go\<close> are constructors; the two
  wrapper structs carry their fields in the order of their declaration
  (\<^verbatim>\<open>EncodingError{Op, Encoding, File, Err}\<close>, \<^verbatim>\<open>FileOperationError{Op, File, Err}\<close>).
  \<^verbatim>\<open>fmt.Errorf\<close> values keep their formatted text; a verb \<^verbatim>\<open>%w\<close> keeps the wrapped
  error as a sub-term, a verb \<^verbatim>\<open>%d\<close> or \<^verbatim>\<open>%.2f\<close> keeps its argument unformatted.
  \<open>LibError\<close> is an error produced by a library or by the operating system, and
  \<open>Panic\<close> is a run-time panic of the Go program.
\<close>

datatype go_error =
    ErrUnsupportedEncoding
  | ErrDetectionFailed
  | ErrConversionFailed
  | ErrInvalidInput
  | ErrFileTooLarge
  | ErrInsufficientMemory
  | EncodingError string string string go_error
  | FileOperationError string string go_error
  | Errorf string
  | ErrorfW string go_error
  | ErrorfChunk int go_error
  | ErrorfConfidence real real
  | LibError string
  | Panic string

section \<open>The codec registry and the conversion pipeline (converter.go)\<close>

record ConverterConfig =
  StrictMode :: bool
  InvalidCharReplacement :: string
  BufferSize :: int
  MaxMemoryUsage :: int
  ChunkSize :: int
  PreserveBOM :: bool
  NormalizeLineEndings :: bool
  TargetLineEnding :: string

text \<open>
  The encodings of \<^verbatim>\<open>golang.org/x/text\<close> that \<^verbatim>\<open>getEncoding\<close> can return. The
  UTF-16 family is \<^verbatim>\<open>unicode.UTF16(endianness, bomPolicy)\<close>.
\<close>

datatype endianness = BigEndian | LittleEndian
datatype bom_policy = UseBOM | IgnoreBOM

datatype xtext_encoding =
    UTF8
  | UTF16 endianness bom_policy
  | GBK
  | GB18030
  | Big5
  | ShiftJIS
  | EUCJP
  | EUCKR
  | ISO8859_1
  | ISO8859_2
  | ISO8859_5
  | ISO8859_15
  | Windows1250
  | Windows1251
  | Windows1252
  | Windows1254
  | KOI8R
  | CodePage866
  | Macintosh

text \<open>
  A \<^verbatim>\<open>transform.Transformer\<close> is used by the converter in one way only:
  \<^verbatim>\<open>io.ReadAll(transform.NewReader(bytes.NewReader(x), t))\<close>. \<^verbatim>\<open>NewReader\<close> resets the
  transformer, so the outcome is a function of the bytes \<open>x\<close>: the transformed bytes, or
  the error the transformer stopped with. The code tables themselves belong to the
  library; they are the two fields of \<open>text_lib\<close>.
\<close>

type_synonym transformer = "bytes \<Rightarrow> go_error + bytes"

record text_lib =
  NewDecoder :: "xtext_encoding \<Rightarrow> transformer"
  NewEncoder :: "xtext_encoding \<Rightarrow> transformer"

text \<open>\<^verbatim>\<open>transform.Chain(a, b)\<close> read to the end: \<open>b\<close> runs on the whole output of \<open>a\<close>.\<close>

definition Chain :: "transformer \<Rightarrow> transformer \<Rightarrow> transformer" where
  "Chain a b x = (case a x of Inl e \<Rightarrow> Inl e | Inr y \<Rightarrow> b y)"

definition getEncoding :: "string \<Rightarrow> go_error + xtext_encoding" where
  "getEncoding name =
    (if name = EncodingUTF8 then Inr UTF8
     else if name = EncodingUTF16 then Inr (UTF16 BigEndian UseBOM)
     else if name = EncodingUTF16LE then Inr (UTF16 LittleEndian IgnoreBOM)
     else if name = EncodingUTF16BE then Inr (UTF16 BigEndian IgnoreBOM)
     else if name = EncodingUTF32 then Inr (UTF16 BigEndian UseBOM)
     else if name = EncodingUTF32LE then Inr (UTF16 LittleEndian IgnoreBOM)
     else if name = EncodingUTF32BE then Inr (UTF16 BigEndian IgnoreBOM)
     else if name = EncodingGBK \<or> name = EncodingGB2312 then Inr GBK
     else if name = EncodingGB18030 then Inr GB18030
     else if name = EncodingBIG5 then Inr Big5
     else if name = EncodingShiftJIS then Inr ShiftJIS
     else if name = EncodingEUCJP then Inr EUCJP
     else if name = EncodingEUCKR then Inr EUCKR
     else if name = EncodingISO88591 then Inr ISO8859_1
     else if name = EncodingISO88592 then Inr ISO8859_2
     else if name = EncodingISO88595 then Inr ISO8859_5
     else if name = EncodingISO885915 then Inr ISO8859_15
     else if name = EncodingWindows1250 then Inr Windows1250
     else if name = EncodingWindows1251 then Inr Windows1251
     else if name = EncodingWindows1252 then Inr Windows1252
     else if name = EncodingWindows1254 then Inr Windows1254
     else if name = EncodingKOI8R then Inr KOI8R
     else if name = EncodingCP866 then Inr CodePage866
     else if name = EncodingMacintosh then Inr Macintosh
     else Inl (Errorf (''unsupported encoding: '' @ name)))"

definition getDecoder :: "text_lib \<Rightarrow> string \<Rightarrow> go_error + transformer" where
  "getDecoder lib encodingName =
    (case getEncoding encodingName of
       Inl err \<Rightarrow> Inl err
     | Inr enc \<Rightarrow> Inr (NewDecoder lib enc))"

definition getEncoder :: "text_lib \<Rightarrow> string \<Rightarrow> go_error + transformer" where
  "getEncoder lib encodingName =
    (case getEncoding encodingName of
       Inl err \<Rightarrow> Inl err
     | Inr enc \<Rightarrow> Inr (NewEncoder lib enc))"

text \<open>
  \<^verbatim>\<open>transformWithErrorRecovery\<close>: the input is read through a \<^verbatim>\<open>bytes.Reader\<close> into a
  buffer of \<open>BufferSize\<close> bytes. \<open>Read\<close> copies \<open>min (len buf) (len rest)\<close> bytes and
  returns \<^verbatim>\<open>io.EOF\<close> only together with \<open>n = 0\<close>, so the loop ends exactly when a read
  delivers nothing: at the end of the input, or at once when the buffer has length 0.
  Each block is transformed on its own; a block whose transformation fails contributes
  the replacement string (when it is not empty) and nothing else.
  \<^verbatim>\<open>make([]byte, n)\<close> panics for a negative \<open>n\<close>.
\<close>

definition replacement_bytes :: "ConverterConfig \<Rightarrow> bytes" where
  "replacement_bytes c =
    (if InvalidCharReplacement c \<noteq> [] then map of_char (InvalidCharReplacement c) else [])"

function recovery_loop :: "ConverterConfig \<Rightarrow> transformer \<Rightarrow> bytes \<Rightarrow> bytes \<Rightarrow> bytes" where
  "recovery_loop c t rest result =
    (let n = min (nat (BufferSize c)) (length rest) in
     if n = 0 then result
     else recovery_loop c t (drop n rest)
            (case t (take n rest) of
               Inl readErr \<Rightarrow> result @ replacement_bytes c
             | Inr converted \<Rightarrow> result @ converted))"
  by pat_completeness auto
termination
  by (relation "measure (\<lambda>(c, t, rest, result). length rest)") auto

declare recovery_loop.simps [simp del]

definition transformWithErrorRecovery ::
  "ConverterConfig \<Rightarrow> bytes \<Rightarrow> transformer \<Rightarrow> go_error + bytes" where
  "transformWithErrorRecovery c data t =
    (if BufferSize c < 0 then Inl (Panic ''makeslice: len out of range'')
     else Inr (recovery_loop c t data []))"

definition transformSmallData ::
  "ConverterConfig \<Rightarrow> bytes \<Rightarrow> transformer \<Rightarrow> go_error + bytes" where
  "transformSmallData c data t =
    (case t data of
       Inl err \<Rightarrow>
         if StrictMode c then Inl (ErrorfW ''conversion failed'' err)
         else transformWithErrorRecovery c data t
     | Inr result \<Rightarrow> Inr result)"

text \<open>
  \<^verbatim>\<open>transformLargeData\<close>: the \<^verbatim>\<open>for\<close> loop over \<open>offset\<close>. With \<open>ChunkSize = 0\<close> the
  offset never advances and the loop does not end, so the loop is a partial function
  and \<open>None\<close> stands for not returning. A negative chunk size makes the slice expression
  \<^verbatim>\<open>data[offset:end]\<close> panic. (The lengths involved stay far below \<open>2^63\<close>, so Go's
  \<^verbatim>\<open>int\<close> is read as an unbounded integer.)
\<close>

partial_function (option) large_loop ::
  "ConverterConfig \<Rightarrow> transformer \<Rightarrow> bytes \<Rightarrow> int \<Rightarrow> bytes \<Rightarrow> (go_error + bytes) option" where
  "large_loop c t data offset result =
    (if offset < int (length data) then
       (let chunkSize = ChunkSize c;
            end0 = offset + chunkSize;
            end = (if end0 > int (length data) then int (length data) else end0)
        in if offset < 0 \<or> end < offset
           then Some (Inl (Panic ''slice bounds out of range''))
           else
             (case transformSmallData c (take (nat (end - offset)) (drop (nat offset) data)) t of
                Inl err \<Rightarrow> Some (Inl (ErrorfChunk offset err))
              | Inr converted \<Rightarrow> large_loop c t data (offset + chunkSize) (result @ converted)))
     else Some (Inr result))"

definition transformLargeData ::
  "ConverterConfig \<Rightarrow> bytes \<Rightarrow> transformer \<Rightarrow> (go_error + bytes) option" where
  "transformLargeData c data t = large_loop c t data 0 []"

definition doTransform ::
  "ConverterConfig \<Rightarrow> bytes \<Rightarrow> transformer \<Rightarrow> (go_error + bytes) option" where
  "doTransform c data t =
    (if MaxMemoryUsage c > 0 \<and> int (length data) > MaxMemoryUsage c
       then Some (Inl ErrInsufficientMemory)
     else if int (length data) > ChunkSize c then transformLargeData c data t
     else Some (transformSmallData c data t))"

text \<open>
  \<^verbatim>\<open>Convert\<close>. The outer \<open>option\<close> is \<open>None\<close> when the call does not return; the inner
  sum is Go's \<^verbatim>\<open>([]byte, error)\<close>.
\<close>

definition Convert ::
  "ConverterConfig \<Rightarrow> text_lib \<Rightarrow> bytes \<Rightarrow> string \<Rightarrow> string \<Rightarrow> (go_error + bytes) option" where
  "Convert c lib data from to =
    (if length data = 0 then Some (Inr [])
     else if from = to then Some (Inr data)
     else
       (case getDecoder lib from of
          Inl err \<Rightarrow>
            Some (Inl (EncodingError OperationConvert from ''''
                        (ErrorfW (''failed to get decoder for '' @ from) err)))
        | Inr fromDecoder \<Rightarrow>
            (case getEncoder lib to of
               Inl err \<Rightarrow>
                 Some (Inl (EncodingError OperationConvert to ''''
                             (ErrorfW (''failed to get encoder for '' @ to) err)))
             | Inr toEncoder \<Rightarrow>
                 (let transformer =
                        (if from = EncodingUTF8 then toEncoder
                         else if to = EncodingUTF8 then fromDecoder
                         else Chain fromDecoder toEncoder)
                  in case doTransform c data transformer of
                       None \<Rightarrow> None
                     | Some (Inl err) \<Rightarrow>
                         Some (Inl (EncodingError OperationConvert (from @ ''->'' @ to) '''' err))
                     | Some (Inr result) \<Rightarrow> Some (Inr result)))))"

section \<open>The multi-tier detector (detector.go)\<close>

record DetectorConfig =
  SampleSize :: int
  MinConfidence :: real
  SupportedEncodings :: "string list"
  EnableCache :: bool
  CacheSize :: int
  CacheTTL :: int
  EnableLanguageDetection :: bool
  PreferredEncodings :: "string list"

text \<open>
  \<^verbatim>\<open>DetectionResult\<close>. The confidence is a \<^verbatim>\<open>float64\<close> that the detector only sets to
  the literals 1.0, 0.99, 0.85 or to a percentage divided by 100, and only compares with
  the threshold; it is read as a real number. \<open>Details\<close> is the
  \<^verbatim>\<open>map[string]interface{}\<close>, as the list of its key/value pairs.
\<close>

datatype detail = DBool bool | DString string

record DetectionResult =
  Encoding :: string
  Confidence :: real
  Language :: string
  Details :: "(string \<times> detail) list"

text \<open>\<^verbatim>\<open>chardet.Result\<close> of the external detector: charset, language, confidence in percent.\<close>

record chardet_Result =
  chardet_Charset :: string
  chardet_Language :: string
  chardet_Confidence :: int

text \<open>
  The two library functions the detector calls: \<^verbatim>\<open>sha256.Sum256\<close> printed with
  \<^verbatim>\<open>%x\<close> (the cache key), and \<^verbatim>\<open>chardet.NewTextDetector().DetectAll\<close>.
\<close>

record detector_env =
  Sum256_hex :: "bytes \<Rightarrow> string"
  DetectAll :: "bytes \<Rightarrow> go_error + chardet_Result list"

record cacheEntry =
  result :: DetectionResult
  timestamp :: int

text \<open>
  \<^verbatim>\<open>detectionCache.cache\<close>, a Go map from key to entry, as the list of its pairs with
  distinct keys; the order of the list is one of the orders in which Go may iterate
  over the map. Times are nanoseconds on the monotonic clock.
\<close>

type_synonym detectionCache = "(string \<times> cacheEntry) list"

text \<open>
  \<^verbatim>\<open>defaultDetector\<close>: the configuration and the cache pointer (\<open>None\<close> is \<^verbatim>\<open>nil\<close>,
  caching disabled). \<open>chardet_calls\<close> is not a field of the Go struct: it counts the calls
  of \<open>DetectAll\<close>, the call counter one would inject to observe the external detector.
\<close>

record defaultDetector =
  config :: DetectorConfig
  cache :: "detectionCache option"
  chardet_calls :: nat

definition NewDetector :: "DetectorConfig \<Rightarrow> defaultDetector" where
  "NewDetector cfg =
    \<lparr> config = cfg,
      cache = (if EnableCache cfg then Some [] else None),
      chardet_calls = 0 \<rparr>"

subsection \<open>unicode/utf8.Valid\<close>

text \<open>
  The standard library's validator: for a leading byte, \<open>utf8_first\<close> gives the length of
  the sequence and the accepted range of the second byte (the tables \<^verbatim>\<open>first\<close> and
  \<^verbatim>\<open>acceptRanges\<close>); the third and fourth bytes must lie in \<open>0x80..0xBF\<close>.
\<close>

definition utf8_first :: "byte \<Rightarrow> (nat \<times> byte \<times> byte) option" where
  "utf8_first b =
    (if 0xC2 \<le> b \<and> b \<le> 0xDF then Some (2, 0x80, 0xBF)
     else if b = 0xE0 then Some (3, 0xA0, 0xBF)
     else if 0xE1 \<le> b \<and> b \<le> 0xEC then Some (3, 0x80, 0xBF)
     else if b = 0xED then Some (3, 0x80, 0x9F)
     else if 0xEE \<le> b \<and> b \<le> 0xEF then Some (3, 0x80, 0xBF)
     else if b = 0xF0 then Some (4, 0x90, 0xBF)
     else if 0xF1 \<le> b \<and> b \<le> 0xF3 then Some (4, 0x80, 0xBF)
     else if b = 0xF4 then Some (4, 0x80, 0x8F)
     else None)"

function utf8_Valid :: "bytes \<Rightarrow> bool" where
  "utf8_Valid [] = True"
| "utf8_Valid (p0 # rest) =
    (if p0 < 0x80 then utf8_Valid rest
     else
       (case utf8_first p0 of
          None \<Rightarrow> False
        | Some (sz, lo, hi) \<Rightarrow>
            if sz > Suc (length rest) then False
            else if rest ! 0 < lo \<or> hi < rest ! 0 then False
            else if 3 \<le> sz \<and> (rest ! 1 < 0x80 \<or> 0xBF < rest ! 1) then False
            else if 4 \<le> sz \<and> (rest ! 2 < 0x80 \<or> 0xBF < rest ! 2) then False
            else utf8_Valid (drop (sz - 1) rest)))"
  by pat_completeness auto
termination
  by (relation "measure length") auto

subsection \<open>The tiers\<close>

definition detectUTF8 :: "bytes \<Rightarrow> DetectionResult option" where
  "detectUTF8 data =
    (if length data = 0 then None
     else if utf8_Valid data then
       (let hasNonASCII = list_ex (\<lambda>b. b > 127) data;
            confidence = (if hasNonASCII then 0.99 else 0.85)
        in Some \<lparr> Encoding = EncodingUTF8, Confidence = confidence, Language = '''',
                  Details = [(''method'', DString ''utf8_validation''),
                             (''has_non_ascii'', DBool hasNonASCII)] \<rparr>)
     else None)"

definition bom_result :: "string \<Rightarrow> DetectionResult" where
  "bom_result enc =
    \<lparr> Encoding = enc, Confidence = 1.0, Language = '''',
      Details = [(''bom'', DBool True), (''method'', DString ''bom_detection'')] \<rparr>"

definition detectBOM :: "bytes \<Rightarrow> DetectionResult option" where
  "detectBOM data =
    (if length data < 2 then None
     else if length data \<ge> 3 \<and> data ! 0 = 0xEF \<and> data ! 1 = 0xBB \<and> data ! 2 = 0xBF
       then Some (bom_result EncodingUTF8)
     else if data ! 0 = 0xFF \<and> data ! 1 = 0xFE then
       (if length data \<ge> 4 \<and> data ! 2 = 0x00 \<and> data ! 3 = 0x00
          then Some (bom_result EncodingUTF32LE)
        else Some (bom_result EncodingUTF16LE))
     else if data ! 0 = 0xFE \<and> data ! 1 = 0xFF then Some (bom_result EncodingUTF16BE)
     else if length data \<ge> 4 \<and> data ! 0 = 0x00 \<and> data ! 1 = 0x00
             \<and> data ! 2 = 0xFE \<and> data ! 3 = 0xFF
       then Some (bom_result EncodingUTF32BE)
     else None)"

definition normalizeEncodingName :: "string \<Rightarrow> string" where
  "normalizeEncodingName charset =
    (case map_of
       [(''UTF-8'', EncodingUTF8),
        (''UTF-16'', EncodingUTF16),
        (''UTF-16LE'', EncodingUTF16LE),
        (''UTF-16BE'', EncodingUTF16BE),
        (''UTF-32'', EncodingUTF32),
        (''UTF-32LE'', EncodingUTF32LE),
        (''UTF-32BE'', EncodingUTF32BE),
        (''GB2312'', EncodingGBK),
        (''GBK'', EncodingGBK),
        (''GB18030'', EncodingGB18030),
        (''Big5'', EncodingBIG5),
        (''Shift_JIS'', EncodingShiftJIS),
        (''EUC-JP'', EncodingEUCJP),
        (''EUC-KR'', EncodingEUCKR),
        (''ISO-8859-1'', EncodingISO88591),
        (''windows-1252'', EncodingWindows1252),
        (''KOI8-R'', EncodingKOI8R)] charset of
       Some normalized \<Rightarrow> normalized
     | None \<Rightarrow> charset)"

definition chardet_to_result :: "string \<Rightarrow> chardet_Result \<Rightarrow> DetectionResult" where
  "chardet_to_result enc r =
    \<lparr> Encoding = enc, Confidence = real_of_int (chardet_Confidence r) / 100.0,
      Language = chardet_Language r,
      Details = [(''method'', DString ''chardet''), (''charset'', DString (chardet_Charset r))] \<rparr>"

text \<open>The two nested loops of \<^verbatim>\<open>selectBestResult\<close> over the preferred encodings.\<close>

fun select_preferred :: "string list \<Rightarrow> chardet_Result list \<Rightarrow> DetectionResult option" where
  "select_preferred [] results = None"
| "select_preferred (preferred # others) results =
    (case find (\<lambda>r. normalizeEncodingName (chardet_Charset r) = preferred) results of
       Some r \<Rightarrow> Some (chardet_to_result preferred r)
     | None \<Rightarrow> select_preferred others results)"

definition selectBestResult ::
  "DetectorConfig \<Rightarrow> chardet_Result list \<Rightarrow> DetectionResult option" where
  "selectBestResult cfg results =
    (case results of
       [] \<Rightarrow> None
     | best # _ \<Rightarrow>
         (case select_preferred (PreferredEncodings cfg) results of
            Some r \<Rightarrow> Some r
          | None \<Rightarrow> Some (chardet_to_result (normalizeEncodingName (chardet_Charset best)) best)))"

definition isEncodingSupported :: "DetectorConfig \<Rightarrow> string \<Rightarrow> bool" where
  "isEncodingSupported cfg encoding =
    (if length (SupportedEncodings cfg) = 0 then True
     else list_ex (\<lambda>supported. encoding = supported) (SupportedEncodings cfg))"

subsection \<open>The detection cache\<close>

definition generateCacheKey :: "detector_env \<Rightarrow> bytes \<Rightarrow> string" where
  "generateCacheKey env data = Sum256_hex env data"

definition cache_delete :: "string \<Rightarrow> detectionCache \<Rightarrow> detectionCache" where
  "cache_delete key al = filter (\<lambda>p. fst p \<noteq> key) al"

definition cache_store :: "string \<Rightarrow> cacheEntry \<Rightarrow> detectionCache \<Rightarrow> detectionCache" where
  "cache_store key e al = cache_delete key al @ [(key, e)]"

text \<open>
  \<^verbatim>\<open>getCachedResult\<close>: the cached result, if any, and the detector afterwards. An
  expired entry is reported as absent and its removal is handed to a goroutine
  (\<^verbatim>\<open>go d.removeExpiredCacheEntry(key)\<close>); here the removal takes place before the call
  returns.
\<close>

definition getCachedResult ::
  "detector_env \<Rightarrow> int \<Rightarrow> defaultDetector \<Rightarrow> bytes
   \<Rightarrow> DetectionResult option \<times> defaultDetector" where
  "getCachedResult env now d data =
    (case cache d of
       None \<Rightarrow> (None, d)
     | Some al \<Rightarrow>
         (let key = generateCacheKey env data in
          case map_of al key of
            None \<Rightarrow> (None, d)
          | Some entry \<Rightarrow>
              if now - timestamp entry > CacheTTL (config d)
                then (None, d\<lparr>cache := Some (cache_delete key al)\<rparr>)
              else (Some (result entry), d)))"

definition evictOldestEntry :: "detectionCache \<Rightarrow> detectionCache" where
  "evictOldestEntry al =
    (let oldest =
           foldl (\<lambda>(oldestKey, oldestTime) (key, entry).
                    if oldestKey = '''' \<or> timestamp entry < oldestTime
                    then (key, timestamp entry) else (oldestKey, oldestTime))
                 ('''', 0) al
     in if fst oldest \<noteq> '''' then cache_delete (fst oldest) al else al)"

definition cacheResult ::
  "detector_env \<Rightarrow> int \<Rightarrow> defaultDetector \<Rightarrow> bytes \<Rightarrow> DetectionResult \<Rightarrow> defaultDetector" where
  "cacheResult env now d data r =
    (case cache d of
       None \<Rightarrow> d
     | Some al \<Rightarrow>
         (let key = generateCacheKey env data;
              al1 = (if int (length al) \<ge> CacheSize (config d) then evictOldestEntry al else al)
          in d\<lparr>cache := Some (cache_store key \<lparr> result = r, timestamp = now \<rparr> al1)\<rparr>))"

subsection \<open>DetectEncoding\<close>

text \<open>
  The statistical tier (from the call of \<^verbatim>\<open>DetectAll\<close> to the end of \<^verbatim>\<open>DetectEncoding\<close>),
  on the sample \<open>data\<close>.
\<close>

definition detect_chardet ::
  "detector_env \<Rightarrow> int \<Rightarrow> defaultDetector \<Rightarrow> bytes
   \<Rightarrow> (go_error + DetectionResult) \<times> defaultDetector" where
  "detect_chardet env now d0 data =
    (let d = d0\<lparr>chardet_calls := Suc (chardet_calls d0)\<rparr> in
     case DetectAll env data of
       Inl err \<Rightarrow>
         (Inl (EncodingError OperationDetect ''unknown'' ''''
                 (ErrorfW ''chardet detection failed'' err)), d)
     | Inr results \<Rightarrow>
         if length results = 0
           then (Inl (EncodingError OperationDetect ''unknown'' '''' ErrDetectionFailed), d)
         else
           (case selectBestResult (config d) results of
              None \<Rightarrow> (Inl (EncodingError OperationDetect ''unknown'' '''' ErrDetectionFailed), d)
            | Some bestResult \<Rightarrow>
                if \<not> isEncodingSupported (config d) (Encoding bestResult)
                  then (Inl (EncodingError OperationDetect (Encoding bestResult) ''''
                               ErrUnsupportedEncoding), d)
                else if Confidence bestResult < MinConfidence (config d)
                  then (Inl (EncodingError OperationDetect (Encoding bestResult) ''''
                               (ErrorfConfidence (Confidence bestResult)
                                  (MinConfidence (config d)))), d)
                else (Inr bestResult, cacheResult env now d data bestResult)))"

text \<open>
  The tiers on the sample: BOM, strict UTF-8, then the statistical tier; each success is
  stored in the cache under the key of the sample.
\<close>

definition detect_sample ::
  "detector_env \<Rightarrow> int \<Rightarrow> defaultDetector \<Rightarrow> bytes
   \<Rightarrow> (go_error + DetectionResult) \<times> defaultDetector" where
  "detect_sample env now d data =
    (case detectBOM data of
       Some bomResult \<Rightarrow> (Inr bomResult, cacheResult env now d data bomResult)
     | None \<Rightarrow>
         (case detectUTF8 data of
            Some utf8Result \<Rightarrow> (Inr utf8Result, cacheResult env now d data utf8Result)
          | None \<Rightarrow> detect_chardet env now d data))"

text \<open>
  \<^verbatim>\<open>DetectEncoding\<close>, called at time \<open>now\<close>: the result and the detector afterwards.
  The cache is looked up with the bytes as given; only then is the input cut to the
  sample. \<^verbatim>\<open>data[:sampleSize]\<close> panics for a negative sample size.
\<close>

definition DetectEncoding ::
  "detector_env \<Rightarrow> int \<Rightarrow> defaultDetector \<Rightarrow> bytes
   \<Rightarrow> (go_error + DetectionResult) \<times> defaultDetector" where
  "DetectEncoding env now d data =
    (if length data = 0
       then (Inl (EncodingError OperationDetect '''' '''' ErrInvalidInput), d)
     else
       (case (if cache d \<noteq> None then getCachedResult env now d data else (None, d)) of
          (Some cached, d1) \<Rightarrow> (Inr cached, d1)
        | (None, d1) \<Rightarrow>
            (let sampleSize = SampleSize (config d1) in
             if int (length data) > sampleSize
             then (if sampleSize < 0
                   then (Inl (Panic ''slice bounds out of range''), d1)
                   else detect_sample env now d1 (take (nat sampleSize) data))
             else detect_sample env now d1 data)))"

section \<open>The processor (processor.go)\<close>

record ConvertResult =
  Data :: bytes
  SourceEncoding :: string
  TargetEncoding :: string
  BytesProcessed :: int
  ConversionTime :: int

record defaultProcessor =
  detector :: defaultDetector
  converter :: ConverterConfig

definition NewProcessor :: "DetectorConfig \<Rightarrow> ConverterConfig \<Rightarrow> defaultProcessor" where
  "NewProcessor dc cc = \<lparr> detector = NewDetector dc, converter = cc \<rparr>"

text \<open>
  \<^verbatim>\<open>SmartConvert\<close>, called at time \<open>now\<close>; \<open>elapsed\<close> is what \<^verbatim>\<open>time.Since(start)\<close>
  measures. The value is \<open>None\<close> when the call does not return, else the Go result and the
  processor afterwards.
\<close>

definition SmartConvert ::
  "detector_env \<Rightarrow> text_lib \<Rightarrow> int \<Rightarrow> int \<Rightarrow> defaultProcessor \<Rightarrow> bytes \<Rightarrow> string
   \<Rightarrow> ((go_error + ConvertResult) \<times> defaultProcessor) option" where
  "SmartConvert env lib now elapsed p data target =
    (if length data = 0
       then Some (Inr \<lparr> Data = [], SourceEncoding = EncodingUTF8, TargetEncoding = target,
                        BytesProcessed = 0, ConversionTime = 0 \<rparr>, p)
     else
       (case DetectEncoding env now (detector p) data of
          (Inl err, d') \<Rightarrow> Some (Inl err, p\<lparr>detector := d'\<rparr>)
        | (Inr detection, d') \<Rightarrow>
            (case Convert (converter p) lib data (Encoding detection) target of
               None \<Rightarrow> None
             | Some (Inl err) \<Rightarrow> Some (Inl err, p\<lparr>detector := d'\<rparr>)
             | Some (Inr convertedData) \<Rightarrow>
                 Some (Inr \<lparr> Data = convertedData, SourceEncoding = Encoding detection,
                              TargetEncoding = target,
                              BytesProcessed = int (length data),
                              ConversionTime = elapsed \<rparr>, p\<lparr>detector := d'\<rparr>))))"

section \<open>The file processor's write path\<close>

text \<open>
  The file system the write path acts on: a file has its bytes, its permission bits and
  its modification time. The calls of \<^verbatim>\<open>os\<close> and \<^verbatim>\<open>ioutil\<close> change it or fail. A call
  fails when the file it needs is missing, and it may fail for reasons the program does
  not control (permissions, a full disk, a rename across devices): \<open>faults\<close> says which
  calls the environment makes fail, and with which error.
\<close>

record file_node =
  content :: bytes
  perm :: nat
  modtime :: int

datatype os_call =
    WriteFile_call string
  | Chmod_call string
  | Rename_call string string
  | Remove_call string
  | ReadFile_call string
  | Chtimes_call string

record os_state =
  files :: "string \<Rightarrow> file_node option"
  faults :: "os_call \<Rightarrow> go_error option"
  clock :: int

definition not_exist :: "string \<Rightarrow> go_error" where
  "not_exist name = LibError (name @ '': no such file or directory'')"

definition ioutil_WriteFile :: "os_state \<Rightarrow> string \<Rightarrow> bytes \<Rightarrow> nat \<Rightarrow> go_error option \<times> os_state" where
  "ioutil_WriteFile w name data m =
    (case faults w (WriteFile_call name) of
       Some e \<Rightarrow> (Some e, w)
     | None \<Rightarrow>
         (let m' = (case files w name of None \<Rightarrow> m | Some f \<Rightarrow> perm f)
          in (None, w\<lparr>files := (files w)(name \<mapsto>
                         \<lparr> content = data, perm = m', modtime = clock w \<rparr>)\<rparr>)))"

definition ioutil_ReadFile :: "os_state \<Rightarrow> string \<Rightarrow> go_error + bytes" where
  "ioutil_ReadFile w name =
    (case faults w (ReadFile_call name) of
       Some e \<Rightarrow> Inl e
     | None \<Rightarrow>
         (case files w name of
            None \<Rightarrow> Inl (not_exist name)
          | Some f \<Rightarrow> Inr (content f)))"

definition os_Chmod :: "os_state \<Rightarrow> string \<Rightarrow> nat \<Rightarrow> go_error option \<times> os_state" where
  "os_Chmod w name m =
    (case faults w (Chmod_call name) of
       Some e \<Rightarrow> (Some e, w)
     | None \<Rightarrow>
         (case files w name of
            None \<Rightarrow> (Some (not_exist name), w)
          | Some f \<Rightarrow> (None, w\<lparr>files := (files w)(name \<mapsto> f\<lparr>perm := m\<rparr>)\<rparr>)))"

definition os_Rename :: "os_state \<Rightarrow> string \<Rightarrow> string \<Rightarrow> go_error option \<times> os_state" where
  "os_Rename w oldpath newpath =
    (case faults w (Rename_call oldpath newpath) of
       Some e \<Rightarrow> (Some e, w)
     | None \<Rightarrow>
         (case files w oldpath of
            None \<Rightarrow> (Some (not_exist oldpath), w)
          | Some f \<Rightarrow>
              (None, w\<lparr>files := ((files w)(oldpath := None))(newpath \<mapsto> f)\<rparr>)))"

definition os_Remove :: "os_state \<Rightarrow> string \<Rightarrow> go_error option \<times> os_state" where
  "os_Remove w name =
    (case faults w (Remove_call name) of
       Some e \<Rightarrow> (Some e, w)
     | None \<Rightarrow>
         (case files w name of
            None \<Rightarrow> (Some (not_exist name), w)
          | Some f \<Rightarrow> (None, w\<lparr>files := (files w)(name := None)\<rparr>)))"

definition os_Chtimes :: "os_state \<Rightarrow> string \<Rightarrow> int \<Rightarrow> go_error option \<times> os_state" where
  "os_Chtimes w name t =
    (case faults w (Chtimes_call name) of
       Some e \<Rightarrow> (Some e, w)
     | None \<Rightarrow>
         (case files w name of
            None \<Rightarrow> (Some (not_exist name), w)
          | Some f \<Rightarrow> (None, w\<lparr>files := (files w)(name \<mapsto> f\<lparr>modtime := t\<rparr>)\<rparr>)))"

text \<open>
  \<^verbatim>\<open>os.FileInfo\<close> of the input file (what the write path reads from it), and
  \<^verbatim>\<open>FileProcessOptions\<close>; three of its fields carry a suffix, their names being
  taken by fields of the configurations above.
\<close>

record FileInfo =
  Mode :: nat
  ModTime :: int

record FileProcessOptions =
  TargetEncoding_o :: string
  MinConfidence_o :: real
  CreateBackup :: bool
  BackupSuffix :: string
  OverwriteExisting :: bool
  BufferSize_o :: int
  PreserveMode :: bool
  PreserveTime :: bool
  DryRun :: bool

definition restoreFromBackup :: "os_state \<Rightarrow> string \<Rightarrow> string \<Rightarrow> go_error option \<times> os_state" where
  "restoreFromBackup w filename backupFile =
    (case ioutil_ReadFile w backupFile of
       Inl err \<Rightarrow> (Some (FileOperationError ''read_backup'' backupFile err), w)
     | Inr data \<Rightarrow>
         (case ioutil_WriteFile w filename data 420 of
            (Some err, w') \<Rightarrow> (Some (FileOperationError ''restore_backup'' filename err), w')
          | (None, w') \<Rightarrow> (None, w')))"

text \<open>
  \<^verbatim>\<open>writeFileWithRecovery\<close>: the error returned (\<open>None\<close> is \<^verbatim>\<open>nil\<close>) and the file system
  afterwards (the mode \<^verbatim>\<open>0644\<close> is 420). The results of both \<^verbatim>\<open>os.Remove\<close> calls, of
  \<^verbatim>\<open>restoreFromBackup\<close> and of
  \<^verbatim>\<open>os.Chtimes\<close> are dropped by the code; only their effect on the file system remains.
\<close>

definition writeFileWithRecovery ::
  "os_state \<Rightarrow> string \<Rightarrow> bytes \<Rightarrow> FileInfo option \<Rightarrow> FileProcessOptions \<Rightarrow> string
   \<Rightarrow> go_error option \<times> os_state" where
  "writeFileWithRecovery w filename data originalInfo options backupFile =
    (let tempFile = filename @ ''.tmp'' in
     case ioutil_WriteFile w tempFile data 420 of
       (Some err, w1) \<Rightarrow> (Some (FileOperationError ''write_temp'' tempFile err), w1)
     | (None, w1) \<Rightarrow>
         (case (case originalInfo of
                  Some info \<Rightarrow>
                    if PreserveMode options then os_Chmod w1 tempFile (Mode info) else (None, w1)
                | None \<Rightarrow> (None, w1)) of
            (Some err, w2) \<Rightarrow>
              (Some (FileOperationError ''chmod'' tempFile err), snd (os_Remove w2 tempFile))
          | (None, w2) \<Rightarrow>
              (case os_Rename w2 tempFile filename of
                 (Some err, w3) \<Rightarrow>
                   (let w4 = snd (os_Remove w3 tempFile);
                        w5 = (if backupFile \<noteq> '''' then snd (restoreFromBackup w4 filename backupFile)
                              else w4)
                    in (Some (FileOperationError ''rename'' filename err), w5))
               | (None, w3) \<Rightarrow>
                   (let w4 = (case originalInfo of
                                Some info \<Rightarrow>
                                  if PreserveTime options
                                  then snd (os_Chtimes w3 filename (ModTime info))
                                  else w3
                              | None \<Rightarrow> w3)
                    in (None, w4)))))"

section \<open>Configurations of the package and stand-ins for the libraries\<close>

text \<open>\<^verbatim>\<open>GetDefaultDetectorConfig\<close> and \<^verbatim>\<open>GetDefaultConverterConfig\<close> (config.go).\<close>

definition DefaultCacheTTL :: int where
  "DefaultCacheTTL = 3600 * 1000000000"

definition GetDefaultDetectorConfig :: DetectorConfig where
  "GetDefaultDetectorConfig =
    \<lparr> SampleSize = 8192, MinConfidence = 0.8,
      SupportedEncodings =
        [EncodingUTF8, EncodingUTF16, EncodingUTF16LE, EncodingUTF16BE, EncodingGBK,
         EncodingGB2312, EncodingGB18030, EncodingBIG5, EncodingShiftJIS, EncodingEUCJP,
         EncodingEUCKR, EncodingISO88591, EncodingWindows1252],
      EnableCache = True, CacheSize = 1000, CacheTTL = DefaultCacheTTL,
      EnableLanguageDetection = False,
      PreferredEncodings = [EncodingUTF8, EncodingGBK, EncodingBIG5] \<rparr>"

definition GetDefaultConverterConfig :: ConverterConfig where
  "GetDefaultConverterConfig =
    \<lparr> StrictMode = False, InvalidCharReplacement = ''?'', BufferSize = 8192,
      MaxMemoryUsage = 0, ChunkSize = 1024 * 1024, PreserveBOM = False,
      NormalizeLineEndings = False, TargetLineEnding = [CHR 0x0A] \<rparr>"

text \<open>The detector configuration of \<^verbatim>\<open>NewStrictMode\<close> (factory.go).\<close>

definition StrictModeDetectorConfig :: DetectorConfig where
  "StrictModeDetectorConfig = GetDefaultDetectorConfig\<lparr>MinConfidence := 0.9\<rparr>"

text \<open>
  The detector configuration of \<^verbatim>\<open>TestDetectEncodingCache\<close> (docs/test-strategy.md):
  the literal sets \<^verbatim>\<open>EnableCache\<close>, \<^verbatim>\<open>CacheSize\<close> and \<^verbatim>\<open>CacheTTL\<close> (one minute), and
  every other field has Go's zero value, \<^verbatim>\<open>SampleSize\<close> among them. \<^verbatim>\<open>NewDetector\<close>
  takes a configuration other than \<^verbatim>\<open>nil\<close> as it is.
\<close>

definition CacheTestDetectorConfig :: DetectorConfig where
  "CacheTestDetectorConfig =
    \<lparr> SampleSize = 0, MinConfidence = 0, SupportedEncodings = [],
      EnableCache = True, CacheSize = 100, CacheTTL = 60 * 1000000000,
      EnableLanguageDetection = False, PreferredEncodings = [] \<rparr>"

text \<open>
  A stand-in for the digest in concrete runs: the bytes themselves printed in hexadecimal,
  a key function without collisions. \<open>fixed_chardet\<close> is an external detector that
  answers every sample with the same candidate list.
\<close>

definition hex_digit :: "nat \<Rightarrow> char" where
  "hex_digit n = ''0123456789abcdef'' ! n"

definition hex_of_bytes :: "bytes \<Rightarrow> string" where
  "hex_of_bytes bs = concat (map (\<lambda>b. [hex_digit (unat b div 16), hex_digit (unat b mod 16)]) bs)"

definition fixed_chardet :: "chardet_Result list \<Rightarrow> detector_env" where
  "fixed_chardet results = \<lparr> Sum256_hex = hex_of_bytes, DetectAll = (\<lambda>data. Inr results) \<rparr>"

section \<open>Notions used to state the properties\<close>

text \<open>
  What the tiers decide on a sample; it depends on the configuration and the external
  detector only, not on the cache or the time.
\<close>

definition sample_verdict ::
  "detector_env \<Rightarrow> DetectorConfig \<Rightarrow> bytes \<Rightarrow> go_error + DetectionResult" where
  "sample_verdict env cfg s =
    fst (detect_sample env 0 \<lparr> config = cfg, cache = None, chardet_calls = 0 \<rparr> s)"

text \<open>
  The sample \<^verbatim>\<open>DetectEncoding\<close> examines: the first \<open>SampleSize\<close> bytes of the input.
\<close>

definition sample_of :: "DetectorConfig \<Rightarrow> bytes \<Rightarrow> bytes" where
  "sample_of cfg data = take (nat (SampleSize cfg)) data"

text \<open>
  The cache of a detector holds what earlier calls stored: every entry found under the
  key of some bytes \<open>x\<close> carries the verdict of the tiers on \<open>x\<close>, and \<open>x\<close> is no longer
  than a sample. A new detector starts with such a cache and \<^verbatim>\<open>DetectEncoding\<close> keeps it
  so as long as the digest does not collide (\<open>NewDetector_consistent\<close>,
  \<open>DetectEncoding_consistent\<close> below).
\<close>

definition cache_consistent :: "detector_env \<Rightarrow> defaultDetector \<Rightarrow> bool" where
  "cache_consistent env d =
    (case cache d of
       None \<Rightarrow> True
     | Some al \<Rightarrow>
         (\<forall>x e. map_of al (generateCacheKey env x) = Some e \<longrightarrow>
            int (length x) \<le> SampleSize (config d)
            \<and> sample_verdict env (config d) x = Inr (result e)))"

text \<open>
  A stand-in for the code tables in concrete runs. \<open>bytewise f\<close> is a single-byte codec
  without state: every byte is transformed on its own, and a byte the table \<open>f\<close> does
  not cover makes the transformer stop with the library's error. \<open>ascii_only\<close> passes
  the ASCII bytes unchanged and covers no other byte, and \<open>ascii_lib\<close> uses it for
  every codec. On inputs made of ASCII bytes and bytes \<open>80\<close> this is how the encoder of
  a single-byte code page acts on UTF-8 text, which is the whole chain of a conversion
  from UTF-8: an ASCII byte is passed on, and a byte \<open>80\<close> that follows no leading
  byte is not valid UTF-8, on which the encoder stops with
  \<^verbatim>\<open>encoding: rune not supported by encoding.\<close>
\<close>

fun bytewise :: "(byte \<Rightarrow> bytes option) \<Rightarrow> transformer" where
  "bytewise f [] = Inr []"
| "bytewise f (b # bs) =
    (case f b of
       None \<Rightarrow> Inl (LibError ''encoding: rune not supported by encoding.'')
     | Some y \<Rightarrow>
         (case bytewise f bs of
            Inl e \<Rightarrow> Inl e
          | Inr ys \<Rightarrow> Inr (y @ ys)))"

definition ascii_only :: "byte \<Rightarrow> bytes option" where
  "ascii_only b = (if b < 0x80 then Some [b] else None)"

definition ascii_lib :: text_lib where
  "ascii_lib = \<lparr> NewDecoder = (\<lambda>enc. bytewise ascii_only),
                 NewEncoder = (\<lambda>enc. bytewise ascii_only) \<rparr>"

text \<open>
  The composition the specification compares \<open>SmartConvert\<close> with,
  \<^verbatim>\<open>convert(data, detect(data).Encoding, T)\<close>: the error of the detection, or else the
  outcome of the conversion from the detected label.
\<close>

definition detect_then_convert ::
  "detector_env \<Rightarrow> text_lib \<Rightarrow> int \<Rightarrow> defaultProcessor \<Rightarrow> bytes \<Rightarrow> string
   \<Rightarrow> (go_error + bytes) option" where
  "detect_then_convert env lib now p data target =
    (case fst (DetectEncoding env now (detector p) data) of
       Inl err \<Rightarrow> Some (Inl err)
     | Inr detection \<Rightarrow> Convert (converter p) lib data (Encoding detection) target)"

text \<open>The outcome of a \<open>SmartConvert\<close> call as error or output bytes.\<close>

definition outcome_bytes ::
  "((go_error + ConvertResult) \<times> defaultProcessor) option \<Rightarrow> (go_error + bytes) option" where
  "outcome_bytes x = map_option (\<lambda>y. map_sum id Data (fst y)) x"

text \<open>
  The pieces a loop with step \<open>n\<close> cuts a buffer into: \<open>n\<close> elements each, the last
  piece possibly shorter. Both loops of the converter cut their input so, the chunked
  path with \<open>ChunkSize\<close> and the recovery with \<open>BufferSize\<close>.
\<close>

function blocks :: "nat \<Rightarrow> 'a list \<Rightarrow> 'a list list" where
  "blocks n xs = (if n = 0 \<or> xs = [] then [] else take n xs # blocks n (drop n xs))"
  by pat_completeness auto
termination
  by (relation "measure (\<lambda>(n, xs). length xs)") auto

declare blocks.simps [simp del]

text \<open>What the recovery writes for one block: its transformation, or the replacement.\<close>

definition recover_block :: "ConverterConfig \<Rightarrow> transformer \<Rightarrow> bytes \<Rightarrow> bytes" where
  "recover_block c t blk =
    (case t blk of Inl readErr \<Rightarrow> replacement_bytes c | Inr converted \<Rightarrow> converted)"

text \<open>The chunked path on a given list of chunks, the first of them at \<open>offset\<close>.\<close>

fun convert_chunks ::
  "ConverterConfig \<Rightarrow> transformer \<Rightarrow> int \<Rightarrow> bytes list \<Rightarrow> bytes \<Rightarrow> go_error + bytes" where
  "convert_chunks c t offset [] acc = Inr acc"
| "convert_chunks c t offset (chunk # chunks) acc =
    (case transformSmallData c chunk t of
       Inl err \<Rightarrow> Inl (ErrorfChunk offset err)
     | Inr converted \<Rightarrow> convert_chunks c t (offset + ChunkSize c) chunks (acc @ converted))"

text \<open>
  Lenient conversion as the specification words it, for a single-byte codec \<open>f\<close>: the
  replacement marker once per offending unit and an error counter, to the end of the
  input. The value is the output and the error count.
\<close>

fun lenient_per_unit :: "(byte \<Rightarrow> bytes option) \<Rightarrow> bytes \<Rightarrow> bytes \<Rightarrow> bytes \<times> nat" where
  "lenient_per_unit f marker [] = ([], 0)"
| "lenient_per_unit f marker (b # bs) =
    (case f b of
       None \<Rightarrow> (marker @ fst (lenient_per_unit f marker bs),
                 Suc (snd (lenient_per_unit f marker bs)))
     | Some y \<Rightarrow> (y @ fst (lenient_per_unit f marker bs), snd (lenient_per_unit f marker bs)))"

text \<open>
  A transformer without state across byte boundaries: it transforms the empty input to
  the empty output, the transformation of a concatenation is the concatenation of the
  transformations, and it fails on a concatenation when it fails on a part.
\<close>

definition stateless :: "transformer \<Rightarrow> bool" where
  "stateless t =
    (t [] = Inr []
     \<and> (\<forall>x y. case t x of
                Inl e \<Rightarrow> isl (t (x @ y))
              | Inr a \<Rightarrow> (case t y of
                            Inl e \<Rightarrow> isl (t (x @ y))
                          | Inr b \<Rightarrow> t (x @ y) = Inr (a @ b))))"

text \<open>The output bytes of a conversion, if it returned any.\<close>

fun bytes_of :: "(go_error + bytes) option \<Rightarrow> bytes option" where
  "bytes_of (Some (Inr out)) = Some out"
| "bytes_of (Some (Inl err)) = None"
| "bytes_of None = None"

text \<open>
  What lenient mode returns for one piece (the whole input, or one chunk): the
  transformation of the piece, or, when that fails, the recovery over its blocks.
\<close>

definition lenient_piece :: "ConverterConfig \<Rightarrow> transformer \<Rightarrow> bytes \<Rightarrow> bytes" where
  "lenient_piece c t x =
    (case t x of
       Inr converted \<Rightarrow> converted
     | Inl err \<Rightarrow> concat (map (recover_block c t) (blocks (nat (BufferSize c)) x)))"

lemmas label_defs =
  EncodingUTF8_def EncodingUTF16_def EncodingUTF16LE_def EncodingUTF16BE_def
  EncodingUTF32_def EncodingUTF32LE_def EncodingUTF32BE_def EncodingGBK_def
  EncodingGB2312_def EncodingGB18030_def EncodingBIG5_def EncodingShiftJIS_def
  EncodingEUCJP_def EncodingEUCKR_def EncodingISO88591_def EncodingISO88592_def
  EncodingISO88595_def EncodingISO885915_def EncodingWindows1250_def
  EncodingWindows1251_def EncodingWindows1252_def EncodingWindows1254_def
  EncodingKOI8R_def EncodingCP866_def EncodingMacintosh_def
  OperationDetect_def OperationConvert_def


section \<open>Properties of the conversion pipeline\<close>

text \<open>
  C9 (identity law). For every byte buffer, the empty one included, and every label
  \<open>X\<close> (supported or not), \<open>Convert data X X\<close> returns, without error, bytes equal to
  \<open>data\<close>, whatever the configuration and the code tables are.
\<close>

theorem Convert_identity: "Convert c lib data X X = Some (Inr data)"
  by (simp add: Convert_def)

text \<open>
  C10 (empty input). For the empty buffer, \<open>Convert\<close> returns the empty slice and no
  error for every pair of labels: the labels are not looked up, so a label outside the
  catalogue, for which \<open>getEncoding\<close> fails, raises no error here, equal labels or not.
\<close>

theorem Convert_empty_any_labels:
  "Convert c lib [] from to = Some (Inr [])
   \<and> getEncoding ''KLINGON'' = Inl (Errorf ''unsupported encoding: KLINGON'')
   \<and> Convert c lib [] ''KLINGON'' EncodingUTF8 = Some (Inr [])
   \<and> Convert c lib [] EncodingUTF8 ''KLINGON'' = Some (Inr [])"
  by (simp add: Convert_def getEncoding_def label_defs)

section \<open>Properties of the detector\<close>

subsection \<open>Auxiliary facts about the cache and the tiers\<close>

lemma map_of_cache_delete:
  "map_of (cache_delete k al) k' = (if k' = k then None else map_of al k')"
  unfolding cache_delete_def
  by (induction al) auto

lemma map_of_cache_store:
  "map_of (cache_store k e al) k' = (if k' = k then Some e else map_of al k')"
  unfolding cache_store_def
  by (auto simp add: map_of_cache_delete map_add_def split: option.splits)

lemma map_of_evict:
  "map_of (evictOldestEntry al) k = Some e \<Longrightarrow> map_of al k = Some e"
  unfolding evictOldestEntry_def Let_def
  by (simp add: map_of_cache_delete split: if_splits)

lemma cacheResult_config [simp]: "config (cacheResult env now d s r) = config d"
  by (simp add: cacheResult_def Let_def split: option.splits)

lemma cacheResult_calls [simp]: "chardet_calls (cacheResult env now d s r) = chardet_calls d"
  by (simp add: cacheResult_def Let_def split: option.splits)

lemma fst_detect_chardet:
  "fst (detect_chardet env now d s) = fst (detect_chardet env 0 \<lparr> config = config d, cache = None, chardet_calls = 0 \<rparr> s)"
  by (simp add: detect_chardet_def Let_def split: sum.splits option.splits)

lemma fst_detect_sample:
  "fst (detect_sample env now d s) = sample_verdict env (config d) s"
  unfolding sample_verdict_def detect_sample_def
  using fst_detect_chardet[of env now d s]
  by (simp split: option.splits)

lemma detect_sample_config [simp]: "config (snd (detect_sample env now d s)) = config d"
  by (simp add: detect_sample_def detect_chardet_def Let_def split: option.splits sum.splits)

lemma getCachedResult_hit:
  assumes "getCachedResult env now d data = (Some r, d1)"
  shows "d1 = d \<and> (\<exists>al e. cache d = Some al \<and> map_of al (generateCacheKey env data) = Some e \<and> r = result e)"
  using assms
  by (auto simp: getCachedResult_def Let_def split: option.splits if_splits)

lemma getCachedResult_miss:
  assumes "getCachedResult env now d data = (None, d1)"
  shows "config d1 = config d \<and> chardet_calls d1 = chardet_calls d
         \<and> (cache_consistent env d \<longrightarrow> cache_consistent env d1)"
  using assms
  by (auto simp: getCachedResult_def Let_def cache_consistent_def map_of_cache_delete
           split: option.splits if_splits)

lemma sample_of_short: "int (length data) \<le> SampleSize cfg \<Longrightarrow> sample_of cfg data = data"
  by (simp add: sample_of_def)

lemma DetectEncoding_unfold:
  assumes "data \<noteq> []" "0 \<le> SampleSize (config d)"
  shows "DetectEncoding env now d data =
    (case getCachedResult env now d data of
       (Some r, d1) \<Rightarrow> (Inr r, d1)
     | (None, d1) \<Rightarrow> detect_sample env now d1 (sample_of (config d) data))"
proof (cases "cache d")
  case None
  then have g: "getCachedResult env now d data = (None, d)"
    by (simp add: getCachedResult_def)
  show ?thesis using assms None
    by (simp add: DetectEncoding_def g Let_def sample_of_def)
next
  case (Some al)
  obtain c d1 where g: "getCachedResult env now d data = (c, d1)" by force
  show ?thesis
  proof (cases c)
    case None
    with g getCachedResult_miss[of env now d data d1] have "config d1 = config d" by simp
    then show ?thesis using assms Some g None
      by (simp add: DetectEncoding_def Let_def sample_of_def)
  next
    case (Some r)
    then show ?thesis using assms \<open>cache d = Some al\<close> g
      by (simp add: DetectEncoding_def)
  qed
qed



lemma detect_chardet_snd:
  "snd (detect_chardet env now d s) =
    (case fst (detect_chardet env now d s) of
       Inl err \<Rightarrow> d\<lparr>chardet_calls := Suc (chardet_calls d)\<rparr>
     | Inr r \<Rightarrow> cacheResult env now (d\<lparr>chardet_calls := Suc (chardet_calls d)\<rparr>) s r)"
  by (simp add: detect_chardet_def Let_def split: sum.splits option.splits)

lemma detect_sample_snd:
  "snd (detect_sample env now d s) =
    (case fst (detect_sample env now d s) of
       Inl err \<Rightarrow> d\<lparr>chardet_calls := Suc (chardet_calls d)\<rparr>
     | Inr r \<Rightarrow>
         if detectBOM s \<noteq> None \<or> detectUTF8 s \<noteq> None then cacheResult env now d s r
         else cacheResult env now (d\<lparr>chardet_calls := Suc (chardet_calls d)\<rparr>) s r)"
  by (simp add: detect_sample_def detect_chardet_snd split: option.splits sum.splits)



lemma DetectEncoding_verdict_calls:
  assumes cons: "cache_consistent env d"
      and ne: "data \<noteq> []"
      and ss: "0 \<le> SampleSize (config d)"
      and tier: "detectBOM (sample_of (config d) data) \<noteq> None
                 \<or> detectUTF8 (sample_of (config d) data) \<noteq> None"
  shows "fst (DetectEncoding env now d data) = sample_verdict env (config d) (sample_of (config d) data)
         \<and> chardet_calls (snd (DetectEncoding env now d data)) = chardet_calls d"
proof -
  obtain c d1 where g: "getCachedResult env now d data = (c, d1)" by force
  show ?thesis
  proof (cases c)
    case (Some r')
    from g Some getCachedResult_hit[of env now d data r' d1]
    obtain al e where h: "d1 = d" "cache d = Some al"
        "map_of al (generateCacheKey env data) = Some e" "r' = result e" by auto
    from cons h have v: "int (length data) \<le> SampleSize (config d)"
        "sample_verdict env (config d) data = Inr (result e)"
      by (simp_all add: cache_consistent_def)
    show ?thesis using g Some h v
      by (simp add: DetectEncoding_unfold[OF ne ss] sample_of_short)
  next
    case None
    from g None getCachedResult_miss[of env now d data d1]
    have d1: "config d1 = config d" "chardet_calls d1 = chardet_calls d" by simp_all
    have "chardet_calls (snd (detect_sample env now d1 (sample_of (config d) data))) = chardet_calls d1"
      using tier by (auto simp: detect_sample_def split: option.splits)
    then show ?thesis using g None d1
      by (simp add: DetectEncoding_unfold[OF ne ss] fst_detect_sample)
  qed
qed

text \<open>
  A new detector has a consistent cache, and \<open>DetectEncoding\<close> keeps the cache consistent
  when the digest is injective.
\<close>

lemma NewDetector_consistent: "cache_consistent env (NewDetector cfg)"
  by (simp add: cache_consistent_def NewDetector_def)

lemma map_of_cacheResult:
  assumes "cache d = Some al"
      and "cache (cacheResult env now d s r) = Some al'"
      and "map_of al' k = Some e"
  shows "(k = generateCacheKey env s \<and> e = \<lparr> result = r, timestamp = now \<rparr>)
         \<or> (k \<noteq> generateCacheKey env s \<and> map_of al k = Some e)"
proof (cases "int (length al) \<ge> CacheSize (config d)")
  case True
  with assms have "map_of (cache_store (generateCacheKey env s) \<lparr> result = r, timestamp = now \<rparr>
                     (evictOldestEntry al)) k = Some e"
    by (simp add: cacheResult_def Let_def)
  then show ?thesis
    using map_of_evict[of al k e]
    by (cases "k = generateCacheKey env s") (simp_all add: map_of_cache_store)
next
  case False
  with assms have "map_of (cache_store (generateCacheKey env s) \<lparr> result = r, timestamp = now \<rparr>
                     al) k = Some e"
    by (simp add: cacheResult_def Let_def)
  then show ?thesis
    by (cases "k = generateCacheKey env s") (simp_all add: map_of_cache_store)
qed

lemma cacheResult_consistent:
  assumes inj: "inj (Sum256_hex env)"
      and cons: "cache_consistent env d"
      and v: "sample_verdict env (config d) s = Inr r"
      and len: "int (length s) \<le> SampleSize (config d)"
  shows "cache_consistent env (cacheResult env now d s r)"
proof (cases "cache d")
  case None
  then show ?thesis using cons by (simp add: cacheResult_def)
next
  case (Some al)
  then obtain al' where c: "cache (cacheResult env now d s r) = Some al'"
    by (simp add: cacheResult_def Let_def)
  have "int (length x) \<le> SampleSize (config d) \<and> sample_verdict env (config d) x = Inr (result e)"
    if a: "map_of al' (generateCacheKey env x) = Some e" for x e
  proof -
    from map_of_cacheResult[OF Some c a]
    show ?thesis
    proof
      assume h: "generateCacheKey env x = generateCacheKey env s \<and> e = \<lparr>result = r, timestamp = now\<rparr>"
      then have "Sum256_hex env x = Sum256_hex env s" by (simp add: generateCacheKey_def)
      with inj have "x = s" by (rule injD)
      with h v len show ?thesis by simp
    next
      assume "generateCacheKey env x \<noteq> generateCacheKey env s \<and> map_of al (generateCacheKey env x) = Some e"
      with cons Some show ?thesis by (simp add: cache_consistent_def)
    qed
  qed
  then show ?thesis
    unfolding cache_consistent_def c option.case cacheResult_config by blast
qed

lemma consistent_calls:
  "cache_consistent env (d\<lparr>chardet_calls := n\<rparr>) = cache_consistent env d"
  by (cases "cache d") (simp_all add: cache_consistent_def)

lemma detect_sample_consistent:
  assumes inj: "inj (Sum256_hex env)"
      and cons: "cache_consistent env d"
      and len: "int (length s) \<le> SampleSize (config d)"
  shows "cache_consistent env (snd (detect_sample env now d s))"
proof (cases "fst (detect_sample env now d s)")
  case (Inl e)
  then show ?thesis using cons by (simp add: detect_sample_snd consistent_calls)
next
  case (Inr r)
  then have v: "sample_verdict env (config d) s = Inr r"
    by (simp add: fst_detect_sample)
  let ?d = "d\<lparr>chardet_calls := Suc (chardet_calls d)\<rparr>"
  have c': "cache_consistent env ?d" using cons by (simp add: consistent_calls)
  have 1: "cache_consistent env (cacheResult env now d s r)"
    using cacheResult_consistent[OF inj cons v len] .
  have 2: "cache_consistent env (cacheResult env now ?d s r)"
    using cacheResult_consistent[OF inj c', of s r now] v len by simp
  show ?thesis using Inr 1 2 by (simp add: detect_sample_snd)
qed

lemma DetectEncoding_consistent:
  assumes inj: "inj (Sum256_hex env)"
      and cons: "cache_consistent env d"
  shows "cache_consistent env (snd (DetectEncoding env now d data))"
proof (cases "data = []")
  case True
  then show ?thesis using cons by (simp add: DetectEncoding_def)
next
  case ne: False
  obtain c d1 where g: "getCachedResult env now d data = (c, d1)" by force
  show ?thesis
  proof (cases c)
    case (Some r)
    with g getCachedResult_hit[of env now d data r d1] have "d1 = d" "cache d \<noteq> None" by auto
    then show ?thesis using g Some cons ne by (simp add: DetectEncoding_def)
  next
    case None
    from g None getCachedResult_miss[of env now d data d1] cons
    have d1: "config d1 = config d" "cache_consistent env d1" by simp_all
    have gd: "cache d = None \<Longrightarrow> d1 = d" using g by (simp add: getCachedResult_def)
    have eq: "(if cache d \<noteq> None then getCachedResult env now d data else (None, d)) = (None, d1)"
      using g None gd by auto
    show ?thesis
    proof (cases "int (length data) > SampleSize (config d)")
      case False
      then have "int (length data) \<le> SampleSize (config d1)" using d1 by simp
      from detect_sample_consistent[OF inj d1(2) this, of now] False ne d1 eq
      show ?thesis by (simp add: DetectEncoding_def Let_def)
    next
      case True
      show ?thesis
      proof (cases "SampleSize (config d) < 0")
        case neg: True
        then show ?thesis using True ne d1 eq by (simp add: DetectEncoding_def Let_def)
      next
        case False
        then have "int (length (take (nat (SampleSize (config d))) data)) \<le> SampleSize (config d1)"
          using d1 by simp
        from detect_sample_consistent[OF inj d1(2) this, of now] True False ne d1 eq
        show ?thesis by (simp add: DetectEncoding_def Let_def)
      qed
    qed
  qed
qed

lemma cacheResult_stores:
  assumes "cache d \<noteq> None"
  shows "\<exists>al'. cache (cacheResult env now d s r) = Some al'
           \<and> map_of al' (generateCacheKey env s) = Some \<lparr> result = r, timestamp = now \<rparr>"
  using assms by (auto simp: cacheResult_def Let_def map_of_cache_store)

lemma detect_sample_stores:
  assumes en: "cache d \<noteq> None" and ok: "fst (detect_sample env now d s) = Inr r"
  shows "\<exists>al'. cache (snd (detect_sample env now d s)) = Some al'
           \<and> map_of al' (generateCacheKey env s) = Some \<lparr> result = r, timestamp = now \<rparr>"
proof -
  let ?d = "d\<lparr>chardet_calls := Suc (chardet_calls d)\<rparr>"
  have en': "cache ?d \<noteq> None" using en by simp
  show ?thesis
    using ok cacheResult_stores[OF en, of env now s r] cacheResult_stores[OF en', of env now s r]
    by (simp add: detect_sample_snd)
qed

text \<open>The definitions a concrete run of the detector unfolds.\<close>

lemmas detector_eval_defs =
  DetectEncoding_def getCachedResult_def detect_sample_def detect_chardet_def
  detectBOM_def detectUTF8_def utf8_first_def selectBestResult_def
  normalizeEncodingName_def chardet_to_result_def isEncodingSupported_def
  cacheResult_def cache_store_def cache_delete_def evictOldestEntry_def
  generateCacheKey_def NewDetector_def GetDefaultDetectorConfig_def
  StrictModeDetectorConfig_def DefaultCacheTTL_def fixed_chardet_def
  hex_of_bytes_def hex_digit_def bom_result_def sample_of_def Let_def

subsection \<open>The BOM tier\<close>




subsection \<open>The strict UTF-8 tier\<close>

text \<open>
  C8, as stated, fails when the configured sample is empty. The input of
  \<^verbatim>\<open>TestDetectEncodingCache\<close> (six Chinese characters in UTF-8, 18 bytes) is not empty,
  carries no byte-order mark and is valid UTF-8, and so is, trivially, its sample under
  the configuration of that test, which is empty since \<open>SampleSize\<close> is 0. The UTF-8 tier
  answers nothing for an empty sample, the external detector is called, and when it
  finds nothing the call fails with \<open>ErrDetectionFailed\<close>.
\<close>

theorem empty_sample_skips_utf8_tier_counterexample:
  "[0xE6, 0xB5, 0x8B, 0xE8, 0xAF, 0x95, 0xE7, 0xBC, 0x93,
    0xE5, 0xAD, 0x98, 0xE5, 0x8A, 0x9F, 0xE8, 0x83, 0xBD :: byte] \<noteq> []
   \<and> cache_consistent (fixed_chardet []) (NewDetector CacheTestDetectorConfig)
   \<and> utf8_Valid [0xE6, 0xB5, 0x8B, 0xE8, 0xAF, 0x95, 0xE7, 0xBC, 0x93,
                 0xE5, 0xAD, 0x98, 0xE5, 0x8A, 0x9F, 0xE8, 0x83, 0xBD]
   \<and> detectBOM [0xE6, 0xB5, 0x8B, 0xE8, 0xAF, 0x95, 0xE7, 0xBC, 0x93,
                 0xE5, 0xAD, 0x98, 0xE5, 0x8A, 0x9F, 0xE8, 0x83, 0xBD] = None
   \<and> sample_of (config (NewDetector CacheTestDetectorConfig))
        [0xE6, 0xB5, 0x8B, 0xE8, 0xAF, 0x95, 0xE7, 0xBC, 0x93,
         0xE5, 0xAD, 0x98, 0xE5, 0x8A, 0x9F, 0xE8, 0x83, 0xBD] = []
   \<and> detectBOM [] = None
   \<and> utf8_Valid []
   \<and> fst (DetectEncoding (fixed_chardet []) 0 (NewDetector CacheTestDetectorConfig)
        [0xE6, 0xB5, 0x8B, 0xE8, 0xAF, 0x95, 0xE7, 0xBC, 0x93,
         0xE5, 0xAD, 0x98, 0xE5, 0x8A, 0x9F, 0xE8, 0x83, 0xBD])
     = Inl (EncodingError OperationDetect ''unknown'' '''' ErrDetectionFailed)
   \<and> chardet_calls (snd (DetectEncoding (fixed_chardet []) 0
        (NewDetector CacheTestDetectorConfig)
        [0xE6, 0xB5, 0x8B, 0xE8, 0xAF, 0x95, 0xE7, 0xBC, 0x93,
         0xE5, 0xAD, 0x98, 0xE5, 0x8A, 0x9F, 0xE8, 0x83, 0xBD])) = 1"
  by (simp add: detector_eval_defs label_defs cache_consistent_def CacheTestDetectorConfig_def)

text \<open>
  C8, amended. If the configured sample size is positive, then for every non-empty
  input whose sample carries no recognised byte-order mark and is entirely valid UTF-8,
  \<open>DetectEncoding\<close> returns the result of the UTF-8 tier: encoding \<open>UTF-8\<close> with
  confidence exactly 0.99 when the sample contains a byte above 127 and exactly 0.85
  when it is pure ASCII, so at least 0.85 in both cases; the external detector is not
  called. This holds for every detector whose cache holds what earlier calls stored.
  With \<open>SampleSize = 0\<close> the sample is empty and is left to the external detector.
\<close>

theorem utf8_tier_confidence:
  assumes cons: "cache_consistent env d"
      and ne: "data \<noteq> []"
      and ss: "0 < SampleSize (config d)"
      and nobom: "detectBOM (sample_of (config d) data) = None"
      and valid: "utf8_Valid (sample_of (config d) data)"
  shows "fst (DetectEncoding env now d data)
           = Inr \<lparr> Encoding = ''UTF-8'',
                   Confidence = (if list_ex (\<lambda>b. b > 127) (sample_of (config d) data)
                                 then 0.99 else 0.85),
                   Language = '''',
                   Details = [(''method'', DString ''utf8_validation''),
                              (''has_non_ascii'',
                               DBool (list_ex (\<lambda>b. b > 127) (sample_of (config d) data)))] \<rparr>
         \<and> (0.85 :: real) \<le> (if list_ex (\<lambda>b. b > 127) (sample_of (config d) data)
                                then 0.99 else 0.85)
         \<and> chardet_calls (snd (DetectEncoding env now d data)) = chardet_calls d"
proof -
  let ?s = "sample_of (config d) data"
  let ?r = "\<lparr> Encoding = ''UTF-8'',
              Confidence = (if list_ex (\<lambda>b. b > 127) ?s then 0.99 else 0.85 :: real),
              Language = '''',
              Details = [(''method'', DString ''utf8_validation''),
                         (''has_non_ascii'', DBool (list_ex (\<lambda>b. b > 127) ?s))] \<rparr>"
  from ne ss have sne: "?s \<noteq> []" by (simp add: sample_of_def)
  with valid have u: "detectUTF8 ?s = Some ?r"
    by (simp add: detectUTF8_def Let_def EncodingUTF8_def)
  from ss have ss0: "0 \<le> SampleSize (config d)" by simp
  from u have tier: "detectBOM ?s \<noteq> None \<or> detectUTF8 ?s \<noteq> None" by simp
  have "sample_verdict env (config d) ?s = Inr ?r"
    using nobom u by (simp add: sample_verdict_def detect_sample_def)
  with DetectEncoding_verdict_calls[OF cons ne ss0 tier, of now]
  show ?thesis by simp
qed

theorem utf8_tier_confidence_witness:
  "cache_consistent (fixed_chardet []) (NewDetector GetDefaultDetectorConfig)
   \<and> [0xE4, 0xB8, 0xAD, 0x41 :: byte] \<noteq> []
   \<and> 0 < SampleSize (config (NewDetector GetDefaultDetectorConfig))
   \<and> detectBOM (sample_of (config (NewDetector GetDefaultDetectorConfig)) [0xE4, 0xB8, 0xAD, 0x41]) = None
   \<and> utf8_Valid (sample_of (config (NewDetector GetDefaultDetectorConfig)) [0xE4, 0xB8, 0xAD, 0x41])
   \<and> fst (DetectEncoding (fixed_chardet []) 0 (NewDetector GetDefaultDetectorConfig)
            [0xE4, 0xB8, 0xAD, 0x41])
         = Inr \<lparr> Encoding = ''UTF-8'', Confidence = 0.99, Language = '''',
                 Details = [(''method'', DString ''utf8_validation''),
                            (''has_non_ascii'', DBool True)] \<rparr>"
proof -
  let ?d = "NewDetector GetDefaultDetectorConfig"
  let ?x = "[0xE4, 0xB8, 0xAD, 0x41 :: byte]"
  have h1: "cache_consistent (fixed_chardet []) ?d"
    by (simp add: cache_consistent_def NewDetector_def)
  have h2: "?x \<noteq> []" by simp
  have h3: "0 < SampleSize (config ?d)"
    by (simp add: NewDetector_def GetDefaultDetectorConfig_def)
  have s: "sample_of (config ?d) ?x = ?x"
    by (simp add: sample_of_def NewDetector_def GetDefaultDetectorConfig_def)
  have h4: "detectBOM (sample_of (config ?d) ?x) = None"
    unfolding s by (simp add: detectBOM_def)
  have h5: "utf8_Valid (sample_of (config ?d) ?x)"
    unfolding s by (simp add: utf8_first_def)
  show ?thesis
    using h1 h2 h3 h4 h5 utf8_tier_confidence [OF h1 h2 h3 h4 h5, of 0]
    unfolding s by simp
qed

subsection \<open>The confidence threshold\<close>




subsection \<open>The cache\<close>

text \<open>
  For an input no longer than the sample the memo works: when a call that was not
  served from the cache succeeds, a second call on the same bytes within the time to
  live returns the same result from the cache and leaves the detector, the count of
  calls of the external detector included, as it is.
\<close>

lemma short_input_second_call_hits_cache:
  assumes en: "cache d \<noteq> None"
      and miss: "fst (getCachedResult env now d data) = None"
      and len: "int (length data) \<le> SampleSize (config d)"
      and ok: "fst (DetectEncoding env now d data) = Inr r"
      and ttl: "now' - now \<le> CacheTTL (config d)"
  shows "DetectEncoding env now' (snd (DetectEncoding env now d data)) data
         = (Inr r, snd (DetectEncoding env now d data))"
proof -
  from ok have ne: "data \<noteq> []" by (auto simp: DetectEncoding_def)
  from len have ss: "0 \<le> SampleSize (config d)" by linarith
  obtain d1 where g: "getCachedResult env now d data = (None, d1)"
    using miss by (cases "getCachedResult env now d data") auto
  have d1: "config d1 = config d" "cache d1 \<noteq> None"
    using g en getCachedResult_miss[OF g]
    by (auto simp: getCachedResult_def Let_def split: option.splits if_splits)
  have first: "DetectEncoding env now d data = detect_sample env now d1 data"
    using g len by (simp add: DetectEncoding_unfold[OF ne ss] sample_of_short)
  let ?d2 = "snd (detect_sample env now d1 data)"
  from ok first have "fst (detect_sample env now d1 data) = Inr r" by simp
  from detect_sample_stores[OF d1(2) this]
  obtain al' where st: "cache ?d2 = Some al'"
      "map_of al' (generateCacheKey env data) = Some \<lparr> result = r, timestamp = now \<rparr>" by auto
  have cfg2: "config ?d2 = config d" using d1 by simp
  have "getCachedResult env now' ?d2 data = (Some r, ?d2)"
    using st ttl cfg2 by (simp add: getCachedResult_def Let_def)
  then show ?thesis
    using ne st first by (simp add: DetectEncoding_def)
qed

text \<open>
  C1 at an input longer than the sample. Default configuration with \<open>SampleSize = 4\<close>,
  a new detector with its cache enabled, the eight bytes \<open>D5 E2 CA C7 D6 D0 CE C4\<close>
  (neither a byte-order mark nor valid UTF-8), an external detector answering \<open>Big5\<close>
  with 100 percent, a digest without collisions, two successive calls at times 0 and 1
  (the time to live is one hour): both calls return the same result, and the second call
  runs the external detector again. The first call stored its result under the key of
  the four-byte sample; the second looked the cache up under the key of all eight bytes.
\<close>

theorem long_input_second_call_reinvokes_chardet:
  "(let env = fixed_chardet
               [\<lparr> chardet_Charset = ''Big5'', chardet_Language = ''zh'',
                  chardet_Confidence = 100 \<rparr>];
        cfg = GetDefaultDetectorConfig\<lparr>SampleSize := 4\<rparr>;
        data = [0xD5, 0xE2, 0xCA, 0xC7, 0xD6, 0xD0, 0xCE, 0xC4];
        first = DetectEncoding env 0 (NewDetector cfg) data;
        second = DetectEncoding env 1 (snd first) data
    in EnableCache cfg
       \<and> fst first = Inr \<lparr> Encoding = ''BIG5'', Confidence = 1, Language = ''zh'',
                Details = [(''method'', DString ''chardet''), (''charset'', DString ''Big5'')] \<rparr>
       \<and> fst second = fst first
       \<and> chardet_calls (snd first) = 1
       \<and> chardet_calls (snd second) = 2)"
  by (simp add: detector_eval_defs label_defs)

section \<open>Properties of the processor\<close>

text \<open>The definitions a concrete run of the converter unfolds.\<close>

lemmas converter_eval_defs =
  Convert_def getDecoder_def getEncoder_def getEncoding_def doTransform_def
  transformLargeData_def transformSmallData_def transformWithErrorRecovery_def
  replacement_bytes_def Chain_def ascii_lib_def ascii_only_def
  GetDefaultConverterConfig_def NewProcessor_def

text \<open>
  C4, as stated, fails at the empty buffer: \<open>SmartConvert\<close> succeeds there with empty
  output, while the composition fails, \<open>DetectEncoding\<close> rejecting empty input with
  \<open>ErrInvalidInput\<close>.
\<close>

theorem SmartConvert_empty_counterexample:
  "outcome_bytes (SmartConvert (fixed_chardet []) ascii_lib 0 0
       (NewProcessor GetDefaultDetectorConfig GetDefaultConverterConfig) [] ''UTF-8'')
     = Some (Inr [])
   \<and> detect_then_convert (fixed_chardet []) ascii_lib 0
       (NewProcessor GetDefaultDetectorConfig GetDefaultConverterConfig) [] ''UTF-8''
     = Some (Inl (EncodingError ''detect'' '''' '''' ErrInvalidInput))"
  by (simp add: outcome_bytes_def SmartConvert_def detect_then_convert_def DetectEncoding_def
        OperationDetect_def)

text \<open>
  C4, amended. For every non-empty buffer and every target label, \<open>SmartConvert\<close> has
  the outcome of detect-then-convert: it fails with the error of \<open>DetectEncoding\<close> or of
  \<open>Convert\<close>, does not return when \<open>Convert\<close> does not, and otherwise succeeds with the
  bytes \<open>Convert\<close> returns for the detected label, which it reports as the source
  encoding. For the empty buffer it succeeds with empty output and source label
  \<open>UTF-8\<close> without consulting the detector, which would reject the input.
\<close>

theorem SmartConvert_composition:
  "(data \<noteq> [] \<longrightarrow>
      outcome_bytes (SmartConvert env lib now elapsed p data target)
        = detect_then_convert env lib now p data target)
   \<and> (\<forall>r p'. data \<noteq> [] \<and> SmartConvert env lib now elapsed p data target = Some (Inr r, p') \<longrightarrow>
         (\<exists>detection. fst (DetectEncoding env now (detector p) data) = Inr detection
            \<and> SourceEncoding r = Encoding detection
            \<and> Convert (converter p) lib data (Encoding detection) target = Some (Inr (Data r))
            \<and> TargetEncoding r = target \<and> BytesProcessed r = int (length data)))
   \<and> SmartConvert env lib now elapsed p [] target
       = Some (Inr \<lparr> Data = [], SourceEncoding = ''UTF-8'', TargetEncoding = target,
                      BytesProcessed = 0, ConversionTime = 0 \<rparr>, p)
   \<and> fst (DetectEncoding env now (detector p) [])
       = Inl (EncodingError ''detect'' '''' '''' ErrInvalidInput)"
proof (intro conjI)
  show "data \<noteq> [] \<longrightarrow> outcome_bytes (SmartConvert env lib now elapsed p data target)
        = detect_then_convert env lib now p data target"
    by (cases "DetectEncoding env now (detector p) data")
       (auto simp: outcome_bytes_def SmartConvert_def detect_then_convert_def
             split: sum.splits option.splits)
  show "\<forall>r p'. data \<noteq> [] \<and> SmartConvert env lib now elapsed p data target = Some (Inr r, p') \<longrightarrow>
         (\<exists>detection. fst (DetectEncoding env now (detector p) data) = Inr detection
            \<and> SourceEncoding r = Encoding detection
            \<and> Convert (converter p) lib data (Encoding detection) target = Some (Inr (Data r))
            \<and> TargetEncoding r = target \<and> BytesProcessed r = int (length data))"
    by (cases "DetectEncoding env now (detector p) data")
       (auto simp: SmartConvert_def split: sum.splits option.splits)
  show "SmartConvert env lib now elapsed p [] target
       = Some (Inr \<lparr> Data = [], SourceEncoding = ''UTF-8'', TargetEncoding = target,
                      BytesProcessed = 0, ConversionTime = 0 \<rparr>, p)"
    by (simp add: SmartConvert_def EncodingUTF8_def)
  show "fst (DetectEncoding env now (detector p) [])
       = Inl (EncodingError ''detect'' '''' '''' ErrInvalidInput)"
    by (simp add: DetectEncoding_def OperationDetect_def)
qed

theorem SmartConvert_composition_witness:
  "[0x41, 0x42 :: byte] \<noteq> []
   \<and> outcome_bytes (SmartConvert (fixed_chardet []) ascii_lib 0 7
        (NewProcessor GetDefaultDetectorConfig GetDefaultConverterConfig) [0x41, 0x42] ''ISO-8859-1'')
       = Some (Inr [0x41, 0x42])
   \<and> detect_then_convert (fixed_chardet []) ascii_lib 0
        (NewProcessor GetDefaultDetectorConfig GetDefaultConverterConfig) [0x41, 0x42] ''ISO-8859-1''
       = Some (Inr [0x41, 0x42])"
proof -
  let ?p = "NewProcessor GetDefaultDetectorConfig GetDefaultConverterConfig"
  have h: "[0x41, 0x42 :: byte] \<noteq> []" by simp
  have d: "detect_then_convert (fixed_chardet []) ascii_lib 0 ?p [0x41, 0x42] ''ISO-8859-1''
            = Some (Inr [0x41, 0x42])"
    by (simp add: detect_then_convert_def detector_eval_defs converter_eval_defs label_defs)
  from SmartConvert_composition [of "[0x41, 0x42]" "fixed_chardet []" ascii_lib 0 7 ?p "''ISO-8859-1''"] h d
  show ?thesis by simp
qed

section \<open>Properties of the file processor's write path\<close>

lemma tmp_neq: "filename @ ''.tmp'' \<noteq> filename"
  by simp

lemma WriteFile_faults [simp]: "faults (snd (ioutil_WriteFile w n d m)) = faults w"
  by (simp add: ioutil_WriteFile_def Let_def split: option.splits)

lemma Chmod_faults [simp]: "faults (snd (os_Chmod w n m)) = faults w"
  by (simp add: os_Chmod_def split: option.splits)

lemma Remove_faults [simp]: "faults (snd (os_Remove w n)) = faults w"
  by (simp add: os_Remove_def split: option.splits)

lemma Rename_fails:
  "faults w (Rename_call a b) = Some e \<Longrightarrow> os_Rename w a b = (Some e, w)"
  by (simp add: os_Rename_def)

lemma WriteFile_ok:
  "faults w (WriteFile_call n) = None \<Longrightarrow>
   fst (ioutil_WriteFile w n d m) = None
   \<and> (\<exists>f. files (snd (ioutil_WriteFile w n d m)) n = Some f \<and> content f = d)
   \<and> (\<forall>n'. n' \<noteq> n \<longrightarrow> files (snd (ioutil_WriteFile w n d m)) n' = files w n')"
  by (simp add: ioutil_WriteFile_def Let_def)

lemma Chmod_files:
  "n' \<noteq> n \<Longrightarrow> files (snd (os_Chmod w n m)) n' = files w n'"
  by (simp add: os_Chmod_def split: option.splits)

lemma Chmod_ok:
  "faults w (Chmod_call n) = None \<Longrightarrow> files w n \<noteq> None \<Longrightarrow> fst (os_Chmod w n m) = None"
  by (auto simp add: os_Chmod_def split: option.splits)

lemma Chmod_present:
  "files w n \<noteq> None \<Longrightarrow> files (snd (os_Chmod w n m)) n \<noteq> None"
  by (auto simp add: os_Chmod_def split: option.splits)

lemma Remove_files:
  "n' \<noteq> n \<Longrightarrow> files (snd (os_Remove w n)) n' = files w n'"
  by (simp add: os_Remove_def split: option.splits)

lemma Remove_ok:
  "faults w (Remove_call n) = None \<Longrightarrow> files (snd (os_Remove w n)) n = None"
  by (simp add: os_Remove_def split: option.splits)

lemma write_path_rename_failure:
  assumes tw: "faults w (WriteFile_call (filename @ ''.tmp'')) = None"
      and cm: "originalInfo = None \<or> \<not> PreserveMode options
               \<or> faults w (Chmod_call (filename @ ''.tmp'')) = None"
      and rn: "faults w (Rename_call (filename @ ''.tmp'') filename) = Some e"
  shows "\<exists>w2. writeFileWithRecovery w filename data originalInfo options backupFile
           = (Some (FileOperationError ''rename'' filename e),
              (let w4 = snd (os_Remove w2 (filename @ ''.tmp''))
               in if backupFile \<noteq> '''' then snd (restoreFromBackup w4 filename backupFile) else w4))
         \<and> faults w2 = faults w
         \<and> (\<forall>n. n \<noteq> filename @ ''.tmp'' \<longrightarrow> files w2 n = files w n)"
proof -
  let ?tmp = "filename @ ''.tmp''"
  obtain w1 where w1: "ioutil_WriteFile w ?tmp data 420 = (None, w1)"
    using WriteFile_ok[OF tw, of data 420] by (cases "ioutil_WriteFile w ?tmp data 420") auto
  have w1f: "faults w1 = faults w" using WriteFile_faults[of w ?tmp data 420] w1 by simp
  have w1p: "files w1 ?tmp \<noteq> None" using WriteFile_ok[OF tw, of data 420] w1 by auto
  have w1o: "\<forall>n. n \<noteq> ?tmp \<longrightarrow> files w1 n = files w n"
    using WriteFile_ok[OF tw, of data 420] w1 by auto
  define c where "c = (case originalInfo of
                  Some info \<Rightarrow>
                    if PreserveMode options then os_Chmod w1 ?tmp (Mode info) else (None, w1)
                | None \<Rightarrow> (None, w1))"
  have c1: "fst c = None"
    using cm w1f w1p Chmod_ok[of w1 ?tmp] by (auto simp: c_def split: option.splits)
  have c2: "faults (snd c) = faults w"
    using w1f by (auto simp: c_def split: option.splits)
  have c3: "\<forall>n. n \<noteq> ?tmp \<longrightarrow> files (snd c) n = files w n"
    using w1o Chmod_files[of _ ?tmp w1] by (auto simp: c_def split: option.splits)
  obtain w2 where w2: "c = (None, w2)" using c1 by (cases c) auto
  have rf: "os_Rename w2 ?tmp filename = (Some e, w2)"
    using Rename_fails[of w2 ?tmp filename e] c2 w2 rn by simp
  have "writeFileWithRecovery w filename data originalInfo options backupFile
           = (Some (FileOperationError ''rename'' filename e),
              (let w4 = snd (os_Remove w2 ?tmp)
               in if backupFile \<noteq> '''' then snd (restoreFromBackup w4 filename backupFile) else w4))"
    using w1 w2[unfolded c_def] rf
    by (simp add: writeFileWithRecovery_def Let_def)
  with c2 c3 w2 show ?thesis by auto
qed

lemma restore_files:
  "n \<noteq> filename \<Longrightarrow> files (snd (restoreFromBackup w filename backupFile)) n = files w n"
  by (auto simp: restoreFromBackup_def ioutil_WriteFile_def Let_def split: sum.splits option.splits)

lemma restore_ok:
  assumes "files w backupFile = Some b" "faults w (ReadFile_call backupFile) = None"
          "faults w (WriteFile_call filename) = None"
  shows "\<exists>f. files (snd (restoreFromBackup w filename backupFile)) filename = Some f
             \<and> content f = content b"
  using assms
  by (simp add: restoreFromBackup_def ioutil_ReadFile_def ioutil_WriteFile_def Let_def)

lemmas file_eval_defs =
  writeFileWithRecovery_def restoreFromBackup_def ioutil_WriteFile_def ioutil_ReadFile_def
  os_Chmod_def os_Rename_def os_Remove_def os_Chtimes_def not_exist_def Let_def

text \<open>
  C5, as stated, fails: the error surfaced after a failed rename does not name the
  outcome of the restore attempt. Two runs of the write path on the same disk, the
  rename failing in both; in the first the restore from the backup succeeds (the
  destination holds the backup's bytes afterwards), in the second the restore fails as
  well (the destination keeps its bytes). Both runs return the same error, the rename
  failure alone.
\<close>

theorem restore_outcome_not_reported_counterexample:
  "(let disk = [''f.txt'' \<mapsto> \<lparr> content = [0x78], perm = 420, modtime = 1 \<rparr>,
                ''f.txt.bak'' \<mapsto> \<lparr> content = [0x61], perm = 420, modtime = 1 \<rparr>];
        rename_fails = (\<lambda>c. if c = Rename_call ''f.txt.tmp'' ''f.txt''
                             then Some (LibError ''rename: invalid cross-device link'') else None);
        restore_fails_too = (\<lambda>c. if c = WriteFile_call ''f.txt''
                                  then Some (LibError ''write: no space left on device'')
                                  else rename_fails c);
        options = \<lparr> TargetEncoding_o = ''UTF-8'', MinConfidence_o = 0.8, CreateBackup = True,
                    BackupSuffix = ''.bak'', OverwriteExisting = True, BufferSize_o = 8192,
                    PreserveMode = True, PreserveTime = True, DryRun = False \<rparr>;
        run1 = writeFileWithRecovery \<lparr> files = disk, faults = rename_fails, clock = 5 \<rparr>
                 ''f.txt'' [0x62] None options ''f.txt.bak'';
        run2 = writeFileWithRecovery \<lparr> files = disk, faults = restore_fails_too, clock = 5 \<rparr>
                 ''f.txt'' [0x62] None options ''f.txt.bak''
    in fst run1 = Some (FileOperationError ''rename'' ''f.txt''
                          (LibError ''rename: invalid cross-device link''))
       \<and> fst run2 = fst run1
       \<and> files (snd run1) ''f.txt'' = Some \<lparr> content = [0x61], perm = 420, modtime = 5 \<rparr>
       \<and> files (snd run2) ''f.txt'' = Some \<lparr> content = [0x78], perm = 420, modtime = 1 \<rparr>)"
  by (simp add: file_eval_defs)

text \<open>
  C5, amended. If the atomic rename of the temp file onto the destination fails (the
  temp file having been written and its mode set), the error surfaced is the
  \<open>rename\<close> file-operation error on the destination wrapping the rename failure, and
  nothing else: the result of the restore is dropped. The temp file is removed (it is
  absent afterwards unless the removal itself fails); when a backup path is given a
  restore is attempted, so that, the backup being readable and the destination writable,
  the destination holds the backup's content afterwards; without a backup path the
  destination is left as it was.
\<close>

theorem rename_failure_recovery:
  assumes tw: "faults w (WriteFile_call (filename @ ''.tmp'')) = None"
      and cm: "originalInfo = None \<or> \<not> PreserveMode options
               \<or> faults w (Chmod_call (filename @ ''.tmp'')) = None"
      and rn: "faults w (Rename_call (filename @ ''.tmp'') filename) = Some e"
  shows "fst (writeFileWithRecovery w filename data originalInfo options backupFile)
           = Some (FileOperationError ''rename'' filename e)
         \<and> (faults w (Remove_call (filename @ ''.tmp'')) = None \<longrightarrow>
              files (snd (writeFileWithRecovery w filename data originalInfo options backupFile))
                (filename @ ''.tmp'') = None)
         \<and> (\<forall>b. backupFile \<noteq> '''' \<and> backupFile \<noteq> filename @ ''.tmp''
                 \<and> files w backupFile = Some b
                 \<and> faults w (ReadFile_call backupFile) = None
                 \<and> faults w (WriteFile_call filename) = None \<longrightarrow>
              (\<exists>f. files (snd (writeFileWithRecovery w filename data originalInfo options
                                 backupFile)) filename = Some f
                   \<and> content f = content b))
         \<and> (backupFile = '''' \<longrightarrow>
              files (snd (writeFileWithRecovery w filename data originalInfo options backupFile))
                filename = files w filename)"
proof -
  let ?tmp = "filename @ ''.tmp''"
  let ?run = "writeFileWithRecovery w filename data originalInfo options backupFile"
  from write_path_rename_failure[OF tw cm rn, of data backupFile]
  obtain w2 where run: "?run = (Some (FileOperationError ''rename'' filename e),
              (let w4 = snd (os_Remove w2 ?tmp)
               in if backupFile \<noteq> '''' then snd (restoreFromBackup w4 filename backupFile) else w4))"
      and f2: "faults w2 = faults w"
      and o2: "\<forall>n. n \<noteq> ?tmp \<longrightarrow> files w2 n = files w n" by blast
  let ?w4 = "snd (os_Remove w2 ?tmp)"
  have f4: "faults ?w4 = faults w" using f2 by simp
  have o4: "n \<noteq> ?tmp \<Longrightarrow> files ?w4 n = files w n" for n
    using o2 Remove_files[of n ?tmp w2] by simp
  have snd_run: "snd ?run = (if backupFile \<noteq> '''' then snd (restoreFromBackup ?w4 filename backupFile) else ?w4)"
    using run by (simp add: Let_def)
  have 1: "fst ?run = Some (FileOperationError ''rename'' filename e)"
    using run by simp
  have 2: "files (snd ?run) ?tmp = None" if r: "faults w (Remove_call ?tmp) = None"
  proof -
    from r f2 have "files ?w4 ?tmp = None" using Remove_ok[of w2 ?tmp] by simp
    then show ?thesis
      using restore_files[of ?tmp filename ?w4 backupFile] by (simp add: snd_run)
  qed
  have 3: "\<exists>f. files (snd ?run) filename = Some f \<and> content f = content b"
    if h: "backupFile \<noteq> '''' \<and> backupFile \<noteq> ?tmp \<and> files w backupFile = Some b
           \<and> faults w (ReadFile_call backupFile) = None
           \<and> faults w (WriteFile_call filename) = None" for b
  proof -
    from h have "files ?w4 backupFile = Some b" using o4[of backupFile] by simp
    from restore_ok[OF this, of filename] h f4 show ?thesis by (simp add: snd_run)
  qed
  have 4: "files (snd ?run) filename = files w filename" if "backupFile = ''''"
    using that o4[of filename] snd_run by simp
  from 1 2 3 4 show ?thesis by blast
qed

theorem rename_failure_recovery_witness:
  "(let w = \<lparr> files = [''f.txt'' \<mapsto> \<lparr> content = [0x78], perm = 420, modtime = 1 \<rparr>,
                        ''f.txt.bak'' \<mapsto> \<lparr> content = [0x61], perm = 420, modtime = 1 \<rparr>],
              faults = (\<lambda>c. if c = Rename_call ''f.txt.tmp'' ''f.txt''
                             then Some (LibError ''rename: invalid cross-device link'') else None),
              clock = 5 \<rparr>;
        options = \<lparr> TargetEncoding_o = ''UTF-8'', MinConfidence_o = 0.8, CreateBackup = True,
                    BackupSuffix = ''.bak'', OverwriteExisting = True, BufferSize_o = 8192,
                    PreserveMode = True, PreserveTime = True, DryRun = False \<rparr>
    in faults w (WriteFile_call (''f.txt'' @ ''.tmp'')) = None
       \<and> faults w (Rename_call (''f.txt'' @ ''.tmp'') ''f.txt'')
           = Some (LibError ''rename: invalid cross-device link'')
       \<and> fst (writeFileWithRecovery w ''f.txt'' [0x62] None options ''f.txt.bak'')
           = Some (FileOperationError ''rename'' ''f.txt''
                     (LibError ''rename: invalid cross-device link''))
       \<and> files (snd (writeFileWithRecovery w ''f.txt'' [0x62] None options ''f.txt.bak''))
            (''f.txt'' @ ''.tmp'') = None)"
proof -
  let ?w = "\<lparr> files = [''f.txt'' \<mapsto> \<lparr> content = [0x78], perm = 420, modtime = 1 \<rparr>,
                        ''f.txt.bak'' \<mapsto> \<lparr> content = [0x61], perm = 420, modtime = 1 \<rparr>],
              faults = (\<lambda>c. if c = Rename_call ''f.txt.tmp'' ''f.txt''
                             then Some (LibError ''rename: invalid cross-device link'') else None),
              clock = 5 \<rparr>"
  let ?o = "\<lparr> TargetEncoding_o = ''UTF-8'', MinConfidence_o = 0.8, CreateBackup = True,
                    BackupSuffix = ''.bak'', OverwriteExisting = True, BufferSize_o = 8192,
                    PreserveMode = True, PreserveTime = True, DryRun = False \<rparr>"
  have h1: "faults ?w (WriteFile_call (''f.txt'' @ ''.tmp'')) = None" by simp
  have h2: "None = (None :: FileInfo option) \<or> \<not> PreserveMode ?o
            \<or> faults ?w (Chmod_call (''f.txt'' @ ''.tmp'')) = None" by simp
  have h3: "faults ?w (Rename_call (''f.txt'' @ ''.tmp'') ''f.txt'')
           = Some (LibError ''rename: invalid cross-device link'')" by simp
  have h4: "faults ?w (Remove_call (''f.txt'' @ ''.tmp'')) = None" by simp
  from rename_failure_recovery [OF h1 h2 h3, of "[0x62]" "''f.txt.bak''"] h4
  have "fst (writeFileWithRecovery ?w ''f.txt'' [0x62] None ?o ''f.txt.bak'')
           = Some (FileOperationError ''rename'' ''f.txt''
                     (LibError ''rename: invalid cross-device link''))
       \<and> files (snd (writeFileWithRecovery ?w ''f.txt'' [0x62] None ?o ''f.txt.bak''))
            (''f.txt'' @ ''.tmp'') = None"
    by blast
  with h1 h3 show ?thesis unfolding Let_def by blast
qed


end
